theory Spec2Isabelle
  imports Main
begin

section \<open>Refresh-token exchange of dex: \<^verbatim>\<open>server/refreshhandlers.go\<close>\<close>

text \<open>
  A shallow embedding of the refresh-token handlers. Go structs are records, Go's
  \<^verbatim>\<open>(value, *refreshError)\<close> results are sums with the error on the left, the storage
  is an explicit state that is passed through, and a nil-pointer dereference is the
  outcome \<open>Panic\<close>. Record fields are global constants in HOL, so fields that two structs
  share carry a prefix: \<open>st\<close> for \<^verbatim>\<open>storage.RefreshToken\<close>, \<open>id\<close> for
  \<^verbatim>\<open>connector.Identity\<close>, \<open>ref\<close> for \<^verbatim>\<open>storage.RefreshTokenRef\<close>, \<open>os\<close> for
  \<^verbatim>\<open>storage.OfflineSessions\<close>. Logging is left out: it has no effect on results.
\<close>

subsection \<open>Data model\<close>

text \<open>\<^verbatim>\<open>time.Time\<close> is an instant on the integer line; \<^verbatim>\<open>[]byte\<close> is a list of bytes.\<close>

type_synonym time = int
type_synonym bytes = string

text \<open>\<^verbatim>\<open>internal.RefreshToken\<close>: the handle the client holds.\<close>

record internal_RefreshToken =
  RefreshId :: string
  Token :: string

text \<open>\<^verbatim>\<open>storage.Claims\<close>.\<close>

record Claims =
  UserID :: string
  Username :: string
  PreferredUsername :: string
  Email :: string
  EmailVerified :: bool
  Groups :: "string list"

text \<open>\<^verbatim>\<open>connector.Identity\<close>.\<close>

record Identity =
  idUserID :: string
  idUsername :: string
  idPreferredUsername :: string
  idEmail :: string
  idEmailVerified :: bool
  idGroups :: "string list"
  idConnectorData :: bytes

text \<open>
  \<^verbatim>\<open>storage.RefreshToken\<close>. The struct is declared in package \<^verbatim>\<open>storage\<close>; its
  fields are the ones the handlers read and write.
\<close>

record storage_RefreshToken =
  stID :: string
  stToken :: string
  stObsoleteToken :: string
  stCreatedAt :: time
  stLastUsed :: time
  stClientID :: string
  stConnectorID :: string
  stConnectorData :: bytes
  stClaims :: Claims
  stScopes :: "string list"
  stNonce :: string

text \<open>\<^verbatim>\<open>storage.RefreshTokenRef\<close> and \<^verbatim>\<open>storage.OfflineSessions\<close>.\<close>

record RefreshTokenRef =
  refID :: string
  refLastUsed :: time

record OfflineSessions =
  osRefresh :: "string \<rightharpoonup> RefreshTokenRef"
  osConnectorData :: bytes

text \<open>\<^verbatim>\<open>storage.Client\<close>: only the identifier is read.\<close>

record Client =
  clID :: string

text \<open>
  A Go \<^verbatim>\<open>error\<close> value: the sentinel \<^verbatim>\<open>storage.ErrNotFound\<close>, or any other error
  (such as \<^verbatim>\<open>errors.New(msg)\<close>).
\<close>

datatype error = ErrNotFound | Error string

text \<open>A call either returns or panics (nil-pointer dereference).\<close>

datatype 'a outcome = Return 'a | Panic

text \<open>\<^verbatim>\<open>refreshError\<close>.\<close>

record refreshError =
  msg :: string
  code :: int
  desc :: string

text \<open>
  Modelled from the spec: the OAuth2 error names \<^verbatim>\<open>errInvalidRequest\<close> and
  \<^verbatim>\<open>errInvalidGrant\<close> are constants of package \<^verbatim>\<open>server\<close> declared outside this
  file; the spec's error taxonomy names them \<open>invalid_request\<close> and \<open>invalid_grant\<close>,
  and names a third code \<open>server_error\<close>. The HTTP status codes are those of
  \<^verbatim>\<open>net/http\<close>.
\<close>

definition errInvalidRequest :: string where
  "errInvalidRequest = ''invalid_request''"

definition errInvalidGrant :: string where
  "errInvalidGrant = ''invalid_grant''"

definition errServerError :: string where
  "errServerError = ''server_error''"

definition StatusBadRequest :: int where
  "StatusBadRequest = 400"

definition StatusInternalServerError :: int where
  "StatusInternalServerError = 500"

definition newInternalServerError :: refreshError where
  "newInternalServerError =
     \<lparr>msg = errInvalidRequest, code = StatusInternalServerError, desc = ''''\<rparr>"

definition newBadRequestError :: "string \<Rightarrow> refreshError" where
  "newBadRequestError d = \<lparr>msg = errInvalidRequest, code = StatusBadRequest, desc = d\<rparr>"

subsection \<open>The request, the response and the server's collaborators\<close>

text \<open>
  The form of an \<^verbatim>\<open>http.Request\<close>; \<^verbatim>\<open>PostFormValue\<close> yields the empty string for a
  key that is absent.
\<close>

record Request =
  PostForm :: "string \<rightharpoonup> string"

definition PostFormValue :: "Request \<Rightarrow> string \<Rightarrow> string" where
  "PostFormValue r key = (case PostForm r key of None \<Rightarrow> '''' | Some v \<Rightarrow> v)"

text \<open>
  What the handler writes: \<^verbatim>\<open>tokenErrHelper\<close> writes the error envelope (error name,
  description, status), \<^verbatim>\<open>writeAccessToken\<close> the token response (ID token, access
  token, refresh token, expiry).
\<close>

datatype Response =
  TokenError string string int
| AccessToken string string string time

text \<open>
  A connector: the capability \<^verbatim>\<open>connector.RefreshConnector\<close> is optional. When present
  it stands for \<^verbatim>\<open>\<lambda>scopes ident. Refresh(ctx, parseScopes(scopes), ident)\<close>, with
  \<open>None\<close> for an error.
\<close>

record Connector =
  RefreshConnector :: "(string list \<Rightarrow> Identity \<Rightarrow> Identity option) option"

text \<open>
  The server: its configuration and the collaborators the handlers call, all declared
  outside this file and taken as parameters. The four policy fields are the methods of
  \<^verbatim>\<open>s.refreshTokenPolicy\<close>; \<open>now\<close> is \<^verbatim>\<open>s.now()\<close>; \<open>NewID\<close> is the value
  \<^verbatim>\<open>storage.NewID()\<close> returns; \<open>getConnector\<close>, the two minters and the codec
  return \<open>None\<close> for an error; \<open>Quote\<close> is \<^verbatim>\<open>strconv.Quote\<close>, which the verb
  \<^verbatim>\<open>%q\<close> applies to each string.
\<close>

record Server =
  RotationEnabled :: bool
  AllowedToReuse :: "time \<Rightarrow> bool"
  CompletelyExpired :: "time \<Rightarrow> bool"
  ExpiredBecauseUnused :: "time \<Rightarrow> bool"
  now :: time
  NewID :: string
  oidcGroupsPrefix :: bool
  getConnector :: "string \<Rightarrow> Connector option"
  newAccessToken :: "string \<Rightarrow> Claims \<Rightarrow> string list \<Rightarrow> string \<Rightarrow> string \<Rightarrow> string option"
  newIDToken :: "string \<Rightarrow> Claims \<Rightarrow> string list \<Rightarrow> string \<Rightarrow> string \<Rightarrow> string \<Rightarrow> string
                  \<Rightarrow> (string \<times> time) option"
  Unmarshal :: "string \<Rightarrow> internal_RefreshToken option"
  Marshal :: "internal_RefreshToken \<Rightarrow> string option"
  Quote :: "string \<Rightarrow> string"

subsection \<open>The storage\<close>

text \<open>
  Modelled from the spec: the storage backend is package \<^verbatim>\<open>storage\<close>, outside this
  file. Its contract (spec, storage contract): a lookup yields the record, "not found" or
  another error; an update hands the latest persisted value to the updater and writes the
  updater's result back, or surfaces the updater's error and writes nothing. The store
  holds, for each key, what a lookup of that key yields. The updaters of this file also
  assign to variables of the enclosing function, so an updater takes and returns those
  variables (\<open>'c\<close>) beside the record. The updater is run once, on the latest value.
\<close>

record Storage =
  refreshTokens :: "string \<Rightarrow> error + storage_RefreshToken"
  offlineSessions :: "string \<times> string \<Rightarrow> error + OfflineSessions"

definition GetRefresh :: "Storage \<Rightarrow> string \<Rightarrow> error + storage_RefreshToken" where
  "GetRefresh st i = refreshTokens st i"

definition GetOfflineSessions :: "Storage \<Rightarrow> string \<Rightarrow> string \<Rightarrow> error + OfflineSessions" where
  "GetOfflineSessions st userID connID = offlineSessions st (userID, connID)"

definition UpdateRefreshToken ::
  "Storage \<Rightarrow> string \<Rightarrow> (storage_RefreshToken \<Rightarrow> 'c \<Rightarrow> (error + storage_RefreshToken) \<times> 'c)
     \<Rightarrow> 'c \<Rightarrow> error option \<times> 'c \<times> Storage" where
  "UpdateRefreshToken st i updater c =
     (case refreshTokens st i of
        Inl e \<Rightarrow> (Some e, c, st)
      | Inr old \<Rightarrow>
          (case updater old c of
             (Inl e, c') \<Rightarrow> (Some e, c', st)
           | (Inr new, c') \<Rightarrow>
               (None, c', st\<lparr>refreshTokens := (refreshTokens st)(i := Inr new)\<rparr>)))"

definition UpdateOfflineSessions ::
  "Storage \<Rightarrow> string \<Rightarrow> string \<Rightarrow> (OfflineSessions \<Rightarrow> (error + OfflineSessions) outcome)
     \<Rightarrow> (error option) outcome \<times> Storage" where
  "UpdateOfflineSessions st userID connID updater =
     (case offlineSessions st (userID, connID) of
        Inl e \<Rightarrow> (Return (Some e), st)
      | Inr old \<Rightarrow>
          (case updater old of
             Panic \<Rightarrow> (Panic, st)
           | Return (Inl e) \<Rightarrow> (Return (Some e), st)
           | Return (Inr new) \<Rightarrow>
               (Return None,
                st\<lparr>offlineSessions := (offlineSessions st)((userID, connID) := Inr new)\<rparr>)))"

subsection \<open>Go's \<^verbatim>\<open>strings.Fields\<close> and \<^verbatim>\<open>fmt\<close> verbs\<close>

text \<open>
  \<^verbatim>\<open>strings.Fields\<close> splits a string around each run of white space as
  \<^verbatim>\<open>unicode.IsSpace\<close> defines it, and returns no field for a string of white space
  only. A Go string is a sequence of bytes read as UTF-8; \<open>unicodeSpace\<close> lists the
  UTF-8 encodings of the white-space code points (U+0009 to U+000D, U+0020, U+0085,
  U+00A0, U+1680, U+2000 to U+200A, U+2028, U+2029, U+202F, U+205F, U+3000). Each
  encoding starts with a byte that is never a continuation byte, so scanning the bytes
  for these encodings finds the same white space as decoding rune by rune.
\<close>

definition unicodeSpace :: "string list" where
  "unicodeSpace =
    [[CHR 0x09], [CHR 0x0A], [CHR 0x0B], [CHR 0x0C], [CHR 0x0D], [CHR 0x20],
     [CHR 0xC2, CHR 0x85], [CHR 0xC2, CHR 0xA0],
     [CHR 0xE1, CHR 0x9A, CHR 0x80],
     [CHR 0xE2, CHR 0x80, CHR 0x80], [CHR 0xE2, CHR 0x80, CHR 0x81],
     [CHR 0xE2, CHR 0x80, CHR 0x82], [CHR 0xE2, CHR 0x80, CHR 0x83],
     [CHR 0xE2, CHR 0x80, CHR 0x84], [CHR 0xE2, CHR 0x80, CHR 0x85],
     [CHR 0xE2, CHR 0x80, CHR 0x86], [CHR 0xE2, CHR 0x80, CHR 0x87],
     [CHR 0xE2, CHR 0x80, CHR 0x88], [CHR 0xE2, CHR 0x80, CHR 0x89],
     [CHR 0xE2, CHR 0x80, CHR 0x8A],
     [CHR 0xE2, CHR 0x80, CHR 0xA8], [CHR 0xE2, CHR 0x80, CHR 0xA9],
     [CHR 0xE2, CHR 0x80, CHR 0xAF],
     [CHR 0xE2, CHR 0x81, CHR 0x9F],
     [CHR 0xE3, CHR 0x80, CHR 0x80]]"

text \<open>The width in bytes of the white-space character a string starts with, or 0.\<close>

definition spaceWidth :: "string \<Rightarrow> nat" where
  "spaceWidth s =
     (case filter (\<lambda>enc. take (length enc) s = enc) unicodeSpace of
        [] \<Rightarrow> 0
      | enc # _ \<Rightarrow> length enc)"

definition flush :: "string \<Rightarrow> string list" where
  "flush cur = (if cur = [] then [] else [cur])"

text \<open>
  The scan: \<open>k\<close> bytes of a white-space character are still to be skipped, \<open>cur\<close> is the
  field read so far.
\<close>

fun fieldsFrom :: "nat \<Rightarrow> string \<Rightarrow> string \<Rightarrow> string list" where
  "fieldsFrom k cur [] = flush cur"
| "fieldsFrom (Suc k) cur (c # cs) = fieldsFrom k cur cs"
| "fieldsFrom 0 cur (c # cs) =
     (case spaceWidth (c # cs) of
        0 \<Rightarrow> fieldsFrom 0 (cur @ [c]) cs
      | Suc n \<Rightarrow> flush cur @ fieldsFrom n [] cs)"

definition Fields :: "string \<Rightarrow> string list" where
  "Fields s = fieldsFrom 0 [] s"

text \<open>\<^verbatim>\<open>strings.Join\<close>.\<close>

fun Join :: "string list \<Rightarrow> string \<Rightarrow> string" where
  "Join [] sep = ''''"
| "Join [x] sep = x"
| "Join (x # y # xs) sep = x @ sep @ Join (y # xs) sep"

text \<open>The verb \<^verbatim>\<open>%q\<close> on a \<^verbatim>\<open>[]string\<close>: the quoted elements, space-separated, in brackets.\<close>

definition SprintfQ :: "Server \<Rightarrow> string list \<Rightarrow> string" where
  "SprintfQ s xs = ''['' @ Join (map (Quote s) xs) '' '' @ '']''"

subsection \<open>The handlers\<close>

fun contains :: "string list \<Rightarrow> string \<Rightarrow> bool" where
  "contains [] item = False"
| "contains (itemFromArray # arr) item = (if itemFromArray = item then True else contains arr item)"

definition extractRefreshTokenFromRequest ::
  "Server \<Rightarrow> Request \<Rightarrow> refreshError + internal_RefreshToken" where
  "extractRefreshTokenFromRequest s r =
     (let v = PostFormValue r ''refresh_token'' in
      if v = '''' then Inl (newBadRequestError ''No refresh token is found in request.'')
      else (case Unmarshal s v of
              None \<Rightarrow> Inr \<lparr>RefreshId = v, Token = ''''\<rparr>
            | Some token \<Rightarrow> Inr token))"

text \<open>
  The description of \<^verbatim>\<open>invalidErr\<close>, built by \<^verbatim>\<open>fmt.Sprintf\<close> from the client
  identifier and the refresh identifier of the handle.
\<close>

definition invalidDesc :: "string \<Rightarrow> internal_RefreshToken \<Rightarrow> string" where
  "invalidDesc clientID token =
     ''clientID '' @ clientID @ '' refresh token (ID '' @ RefreshId token
       @ '') is invalid or has already been claimed by another client.''"

text \<open>
  In the \<^verbatim>\<open>switch\<close> of the secret check each of the three cases falls through to the
  body of the last one, so the body runs when any of the three conditions holds, tried in
  the order written.
\<close>

definition getRefreshTokenFromStorage ::
  "Server \<Rightarrow> Storage \<Rightarrow> string \<Rightarrow> internal_RefreshToken \<Rightarrow> refreshError + storage_RefreshToken" where
  "getRefreshTokenFromStorage s st clientID token =
     (let invalidErr = newBadRequestError (invalidDesc clientID token) in
      case GetRefresh st (RefreshId token) of
        Inl err \<Rightarrow>
          (if err \<noteq> ErrNotFound then Inl newInternalServerError else Inl invalidErr)
      | Inr refresh \<Rightarrow>
          if stClientID refresh \<noteq> clientID
          then Inl \<lparr>msg = errInvalidGrant, code = StatusBadRequest, desc = desc invalidErr\<rparr>
          else if stToken refresh \<noteq> Token token
                  \<and> (\<not> AllowedToReuse s (stLastUsed refresh)
                       \<or> stObsoleteToken refresh \<noteq> Token token
                       \<or> stObsoleteToken refresh = '''')
          then Inl invalidErr
          else (let expiredErr = newBadRequestError ''Refresh token expired.'' in
                if CompletelyExpired s (stCreatedAt refresh) then Inl expiredErr
                else if ExpiredBecauseUnused s (stLastUsed refresh) then Inl expiredErr
                else Inr refresh))"

text \<open>The loop that collects the requested scopes the stored token does not hold.\<close>

definition unauthorizedScopes :: "string list \<Rightarrow> string list \<Rightarrow> string list" where
  "unauthorizedScopes stored requestedScopes =
     foldl (\<lambda>acc requestScope.
              if \<not> contains stored requestScope then acc @ [requestScope] else acc)
           [] requestedScopes"

definition getRefreshScopes ::
  "Server \<Rightarrow> Request \<Rightarrow> storage_RefreshToken \<Rightarrow> refreshError + string list" where
  "getRefreshScopes s r refresh =
     (let scope = PostFormValue r ''scope'' in
      if scope = '''' then Inr (stScopes refresh)
      else (let requestedScopes = Fields scope;
                unauthorized = unauthorizedScopes (stScopes refresh) requestedScopes in
            if length unauthorized > 0
            then Inl (newBadRequestError
                       (''Requested scopes contain unauthorized scope(s): ''
                          @ SprintfQ s unauthorized @ ''.''))
            else Inr requestedScopes))"

text \<open>
  The connector data chosen by the first \<^verbatim>\<open>switch\<close> of \<^verbatim>\<open>refreshWithConnector\<close>:
  the case \<^verbatim>\<open>err != nil\<close> comes first, so after a "not found" the variable keeps its
  zero value and the record's own connector data is not looked at.
\<close>

definition refreshWithConnector ::
  "Server \<Rightarrow> Storage \<Rightarrow> internal_RefreshToken \<Rightarrow> storage_RefreshToken \<Rightarrow> string list
     \<Rightarrow> refreshError + Identity" where
  "refreshWithConnector s st token refresh scopes =
     (case (case GetOfflineSessions st (UserID (stClaims refresh)) (stConnectorID refresh) of
              Inl err \<Rightarrow> (if err \<noteq> ErrNotFound then Inl newInternalServerError else Inr [])
            | Inr session \<Rightarrow>
                (if length (stConnectorData refresh) > 0 then Inr (stConnectorData refresh)
                 else Inr (osConnectorData session))) of
        Inl rerr \<Rightarrow> Inl rerr
      | Inr connectorData \<Rightarrow>
          (case getConnector s (stConnectorID refresh) of
             None \<Rightarrow> Inl newInternalServerError
           | Some conn \<Rightarrow>
               (let ident = \<lparr>idUserID = UserID (stClaims refresh),
                             idUsername = Username (stClaims refresh),
                             idPreferredUsername = PreferredUsername (stClaims refresh),
                             idEmail = Email (stClaims refresh),
                             idEmailVerified = EmailVerified (stClaims refresh),
                             idGroups = Groups (stClaims refresh),
                             idConnectorData = connectorData\<rparr> in
                if AllowedToReuse s (stLastUsed refresh) \<and> Token token = stObsoleteToken refresh
                then Inr ident
                else (case RefreshConnector conn of
                        None \<Rightarrow> Inr ident
                      | Some refreshConn \<Rightarrow>
                          (case refreshConn scopes ident of
                             None \<Rightarrow> Inl newInternalServerError
                           | Some newIdent \<Rightarrow> Inr newIdent)))))"

text \<open>
  \<^verbatim>\<open>old.Refresh[refresh.ClientID]\<close> is a pointer; for a client the map does not hold it
  is nil and reading its \<^verbatim>\<open>ID\<close> panics.
\<close>

definition offlineSessionUpdater ::
  "storage_RefreshToken \<Rightarrow> Identity \<Rightarrow> time \<Rightarrow> OfflineSessions
     \<Rightarrow> (error + OfflineSessions) outcome" where
  "offlineSessionUpdater refresh ident lastUsed old =
     (case osRefresh old (stClientID refresh) of
        None \<Rightarrow> Panic
      | Some ref \<Rightarrow>
          if refID ref \<noteq> stID refresh then Return (Inl (Error ''refresh token invalid''))
          else Return (Inr (old\<lparr>osRefresh := (osRefresh old)
                                   (stClientID refresh \<mapsto> ref\<lparr>refLastUsed := lastUsed\<rparr>),
                                osConnectorData := idConnectorData ident\<rparr>)))"

definition updateOfflineSession ::
  "Server \<Rightarrow> Storage \<Rightarrow> storage_RefreshToken \<Rightarrow> Identity \<Rightarrow> time
     \<Rightarrow> (refreshError option) outcome \<times> Storage" where
  "updateOfflineSession s st refresh ident lastUsed =
     (case UpdateOfflineSessions st (UserID (stClaims refresh)) (stConnectorID refresh)
             (offlineSessionUpdater refresh ident lastUsed) of
        (Panic, st') \<Rightarrow> (Panic, st')
      | (Return (Some err), st') \<Rightarrow> (Return (Some newInternalServerError), st')
      | (Return None, st') \<Rightarrow> (Return None, st'))"

text \<open>
  The closure \<^verbatim>\<open>refreshTokenUpdater\<close>. It assigns to \<^verbatim>\<open>newToken.Token\<close> and to
  \<^verbatim>\<open>lastUsed\<close> of the enclosing function, so it takes and returns the pair of them.
  With rotation disabled \<^verbatim>\<open>newToken\<close> is the same pointer as \<^verbatim>\<open>token\<close>, and that
  path never assigns through it.
\<close>

definition refreshTokenUpdater ::
  "Server \<Rightarrow> internal_RefreshToken \<Rightarrow> Identity \<Rightarrow> storage_RefreshToken
     \<Rightarrow> internal_RefreshToken \<times> time
     \<Rightarrow> (error + storage_RefreshToken) \<times> (internal_RefreshToken \<times> time)" where
  "refreshTokenUpdater s token ident old c =
     (case c of (newToken, lastUsed) \<Rightarrow>
        (let advance = (\<lambda>old.
               (Inr (old\<lparr>stToken := Token newToken,
                         stClaims := (stClaims old)
                           \<lparr>Username := idUsername ident,
                            PreferredUsername := idPreferredUsername ident,
                            Email := idEmail ident,
                            EmailVerified := idEmailVerified ident,
                            Groups := idGroups ident\<rparr>,
                         stLastUsed := lastUsed,
                         stConnectorData := []\<rparr>),
                (newToken, lastUsed))) in
         if RotationEnabled s then
           (if stToken old \<noteq> Token token then
              (if AllowedToReuse s (stLastUsed old) \<and> stObsoleteToken old = Token token
               then (Inr old, (newToken\<lparr>Token := stToken old\<rparr>, stLastUsed old))
               else (Inl (Error ''refresh token claimed twice''), (newToken, lastUsed)))
            else advance (old\<lparr>stObsoleteToken := stToken old\<rparr>))
         else advance old))"

definition updateRefreshToken ::
  "Server \<Rightarrow> Storage \<Rightarrow> internal_RefreshToken \<Rightarrow> storage_RefreshToken \<Rightarrow> Identity
     \<Rightarrow> (refreshError + internal_RefreshToken) outcome \<times> Storage" where
  "updateRefreshToken s st token refresh ident =
     (let newToken = (if RotationEnabled s
                      then \<lparr>RefreshId = stID refresh, Token = NewID s\<rparr> else token);
          lastUsed = now s in
      case UpdateRefreshToken st (stID refresh) (refreshTokenUpdater s token ident)
             (newToken, lastUsed) of
        (Some err, c, st') \<Rightarrow> (Return (Inl newInternalServerError), st')
      | (None, (newToken', lastUsed'), st') \<Rightarrow>
          (case updateOfflineSession s st' refresh ident lastUsed' of
             (Panic, st'') \<Rightarrow> (Panic, st'')
           | (Return (Some rerr), st'') \<Rightarrow> (Return (Inl rerr), st'')
           | (Return None, st'') \<Rightarrow> (Return (Inr newToken'), st'')))"

definition refreshTokenErrHelper :: "refreshError \<Rightarrow> Response" where
  "refreshTokenErrHelper err = TokenError (msg err) (desc err) (code err)"

text \<open>
  The groups-prefix block. The loop over \<^verbatim>\<open>ident.Groups\<close> overwrites each element
  of the slice in place with \<^verbatim>\<open>fmt.Sprintf("%s:%s", refresh.ConnectorID, group)\<close>;
  the identity that goes on to the minters and to \<^verbatim>\<open>updateRefreshToken\<close> is this one
  variable. \<open>injectGroupsPrefix\<close> is the value of that variable after the loop; what
  the loop does to an array that a stored record shares is \<open>prefixInPlace\<close> below.
\<close>

definition prefixGroups :: "string \<Rightarrow> string list \<Rightarrow> string list" where
  "prefixGroups connectorID groups = map (\<lambda>group. connectorID @ '':'' @ group) groups"

definition injectGroupsPrefix :: "Server \<Rightarrow> storage_RefreshToken \<Rightarrow> Identity \<Rightarrow> Identity" where
  "injectGroupsPrefix s refresh ident =
     (if oidcGroupsPrefix s
      then ident\<lparr>idGroups := prefixGroups (stConnectorID refresh) (idGroups ident)\<rparr>
      else ident)"

text \<open>The \<^verbatim>\<open>storage.Claims\<close> literal built from the identity for the minters.\<close>

definition identityClaims :: "Identity \<Rightarrow> Claims" where
  "identityClaims ident =
     \<lparr>UserID = idUserID ident,
      Username = idUsername ident,
      PreferredUsername = idPreferredUsername ident,
      Email = idEmail ident,
      EmailVerified = idEmailVerified ident,
      Groups = idGroups ident\<rparr>"

text \<open>
  The entry point. It yields the responses written and the storage afterwards; a panic
  leaves the handler without a response.
\<close>

definition handleRefreshToken ::
  "Server \<Rightarrow> Storage \<Rightarrow> Request \<Rightarrow> Client \<Rightarrow> (Response list) outcome \<times> Storage" where
  "handleRefreshToken s st r client =
     (case extractRefreshTokenFromRequest s r of
        Inl rerr \<Rightarrow> (Return [refreshTokenErrHelper rerr], st)
      | Inr token \<Rightarrow>
     (case getRefreshTokenFromStorage s st (clID client) token of
        Inl rerr \<Rightarrow> (Return [refreshTokenErrHelper rerr], st)
      | Inr refresh \<Rightarrow>
     (case getRefreshScopes s r refresh of
        Inl rerr \<Rightarrow> (Return [refreshTokenErrHelper rerr], st)
      | Inr scopes \<Rightarrow>
     (case refreshWithConnector s st token refresh scopes of
        Inl rerr \<Rightarrow> (Return [refreshTokenErrHelper rerr], st)
      | Inr ident0 \<Rightarrow>
     (let ident = injectGroupsPrefix s refresh ident0;
          claims = identityClaims ident in
      case newAccessToken s (clID client) claims scopes (stNonce refresh) (stConnectorID refresh) of
        None \<Rightarrow> (Return [refreshTokenErrHelper newInternalServerError], st)
      | Some accessToken \<Rightarrow>
     (case newIDToken s (clID client) claims scopes (stNonce refresh) accessToken ''''
             (stConnectorID refresh) of
        None \<Rightarrow> (Return [refreshTokenErrHelper newInternalServerError], st)
      | Some (idToken, expiry) \<Rightarrow>
     (case updateRefreshToken s st token refresh ident of
        (Panic, st') \<Rightarrow> (Panic, st')
      | (Return (Inl rerr), st') \<Rightarrow> (Return [refreshTokenErrHelper rerr], st')
      | (Return (Inr newToken), st') \<Rightarrow>
          (case Marshal s newToken of
             None \<Rightarrow> (Return [refreshTokenErrHelper newInternalServerError], st')
           | Some rawNewToken \<Rightarrow>
               (Return [AccessToken idToken accessToken rawNewToken expiry], st')))))))))"

subsection \<open>The spec's seeded identity\<close>

text \<open>
  Step 3 of the spec's identity refresher, in the spec's words: an identity "seeded from
  \<open>stored.claims\<close> plus the chosen connector-data". The properties of
  \<open>refreshWithConnector\<close> are stated against it.
\<close>

definition seededIdentity :: "storage_RefreshToken \<Rightarrow> bytes \<Rightarrow> Identity" where
  "seededIdentity refresh connectorData =
     \<lparr>idUserID = UserID (stClaims refresh),
      idUsername = Username (stClaims refresh),
      idPreferredUsername = PreferredUsername (stClaims refresh),
      idEmail = Email (stClaims refresh),
      idEmailVerified = EmailVerified (stClaims refresh),
      idGroups = Groups (stClaims refresh),
      idConnectorData = connectorData\<rparr>"

subsection \<open>A storage that keeps its records in memory\<close>

text \<open>
  Modelled from the spec: the storage backend is outside this file, and the spec leaves
  open how it is realised. \<^verbatim>\<open>GetRefresh\<close> returns a \<^verbatim>\<open>storage.RefreshToken\<close> struct
  by value, and copying a Go struct copies the headers of its slices, not their arrays.
  So a backend that keeps its records in memory and hands them out by value hands out a
  \<^verbatim>\<open>Claims.Groups\<close> slice over the very array the stored record uses. This storage
  keeps, beside each stored refresh token, the address of the array of its
  \<^verbatim>\<open>Claims.Groups\<close>, and the contents of the arrays; the \<open>Groups\<close> field of the record
  kept beside an address is not read.
\<close>

type_synonym addr = nat

record MemStorage =
  memRefreshTokens :: "string \<Rightarrow> error + storage_RefreshToken \<times> addr"
  memOfflineSessions :: "string \<times> string \<Rightarrow> error + OfflineSessions"
  arrays :: "addr \<Rightarrow> string list"

text \<open>What the lookups of this storage yield: each record with the groups its array holds.\<close>

definition readStorage :: "MemStorage \<Rightarrow> Storage" where
  "readStorage m =
     \<lparr>refreshTokens = (\<lambda>i. case memRefreshTokens m i of
                              Inl e \<Rightarrow> Inl e
                            | Inr (rec, a) \<Rightarrow>
                                Inr (rec\<lparr>stClaims := (stClaims rec)\<lparr>Groups := arrays m a\<rparr>\<rparr>)),
      offlineSessions = memOfflineSessions m\<rparr>"

text \<open>The array under \<^verbatim>\<open>refresh.Claims.Groups\<close> of the record a lookup returns.\<close>

definition groupsArray :: "MemStorage \<Rightarrow> string \<Rightarrow> addr option" where
  "groupsArray m i = (case memRefreshTokens m i of Inl e \<Rightarrow> None | Inr (rec, a) \<Rightarrow> Some a)"

text \<open>
  Whether \<^verbatim>\<open>refreshWithConnector\<close>, when it succeeds, returns the identity it built
  itself: on the reuse short-circuit (lines 177 to 179) and for a connector without
  \<^verbatim>\<open>Refresh\<close> (line 186). That identity's \<^verbatim>\<open>Groups\<close> is the slice
  \<^verbatim>\<open>refresh.Claims.Groups\<close> (line 171), array and all.
\<close>

definition returnsSeeded :: "Server \<Rightarrow> internal_RefreshToken \<Rightarrow> storage_RefreshToken \<Rightarrow> bool" where
  "returnsSeeded s token refresh \<longleftrightarrow>
     (AllowedToReuse s (stLastUsed refresh) \<and> Token token = stObsoleteToken refresh)
     \<or> (case getConnector s (stConnectorID refresh) of
           None \<Rightarrow> False
         | Some conn \<Rightarrow> RefreshConnector conn = None)"

text \<open>
  The groups-prefix loop as a write to memory: \<^verbatim>\<open>ident.Groups[idx] = ...\<close> overwrites
  the elements of the array under \<^verbatim>\<open>ident.Groups\<close>. \<open>loc\<close> is that array when it is a
  stored record's, and \<open>None\<close> when the identity is the connector's own result, which is
  taken to share no array with the storage.
\<close>

definition prefixInPlace ::
  "Server \<Rightarrow> storage_RefreshToken \<Rightarrow> addr option \<Rightarrow> MemStorage \<Rightarrow> MemStorage" where
  "prefixInPlace s refresh loc m =
     (if oidcGroupsPrefix s
      then (case loc of
              None \<Rightarrow> m
            | Some a \<Rightarrow>
                m\<lparr>arrays := (arrays m)(a := prefixGroups (stConnectorID refresh) (arrays m a))\<rparr>)
      else m)"

text \<open>
  Lines 281 to 339 of \<^verbatim>\<open>handleRefreshToken\<close> on this storage, up to the call of
  \<^verbatim>\<open>updateRefreshToken\<close>: the result is the response of the stage that failed, or the
  handle and the identity the rotator is called with; beside either, the memory as the
  stages have left it.
\<close>

definition handleRefreshTokenInMemory ::
  "Server \<Rightarrow> MemStorage \<Rightarrow> Request \<Rightarrow> Client
     \<Rightarrow> Response list \<times> MemStorage + (internal_RefreshToken \<times> Identity) \<times> MemStorage" where
  "handleRefreshTokenInMemory s m r client =
     (case extractRefreshTokenFromRequest s r of
        Inl rerr \<Rightarrow> Inl ([refreshTokenErrHelper rerr], m)
      | Inr token \<Rightarrow>
     (case getRefreshTokenFromStorage s (readStorage m) (clID client) token of
        Inl rerr \<Rightarrow> Inl ([refreshTokenErrHelper rerr], m)
      | Inr refresh \<Rightarrow>
     (case getRefreshScopes s r refresh of
        Inl rerr \<Rightarrow> Inl ([refreshTokenErrHelper rerr], m)
      | Inr scopes \<Rightarrow>
     (case refreshWithConnector s (readStorage m) token refresh scopes of
        Inl rerr \<Rightarrow> Inl ([refreshTokenErrHelper rerr], m)
      | Inr ident0 \<Rightarrow>
     (let loc = (if returnsSeeded s token refresh then groupsArray m (RefreshId token)
                 else None);
          m' = prefixInPlace s refresh loc m;
          ident = injectGroupsPrefix s refresh ident0;
          claims = identityClaims ident in
      case newAccessToken s (clID client) claims scopes (stNonce refresh) (stConnectorID refresh) of
        None \<Rightarrow> Inl ([refreshTokenErrHelper newInternalServerError], m')
      | Some accessToken \<Rightarrow>
     (case newIDToken s (clID client) claims scopes (stNonce refresh) accessToken ''''
             (stConnectorID refresh) of
        None \<Rightarrow> Inl ([refreshTokenErrHelper newInternalServerError], m')
      | Some (idToken, expiry) \<Rightarrow> Inr ((token, ident), m')))))))"

subsection \<open>Scenario values\<close>

text \<open>
  The values of the spec's end-to-end scenarios: a refresh token \<open>R1\<close> with secret \<open>T1\<close>
  of client \<open>C1\<close> and connector \<open>ldap\<close>, stored groups \<open>[a]\<close>, a connector whose
  \<^verbatim>\<open>Refresh\<close> returns the groups \<open>[a, b]\<close>, rotation on, the next secret \<open>T2\<close>, the
  clock at 100 and a reuse interval of 30. The minters return the groups they are given,
  joined by commas.
\<close>

definition exConnector :: Connector where
  "exConnector =
     \<lparr>RefreshConnector = Some (\<lambda>scopes ident. Some (ident\<lparr>idGroups := [''a'', ''b'']\<rparr>))\<rparr>"

definition exPlainConnector :: Connector where
  "exPlainConnector = \<lparr>RefreshConnector = None\<rparr>"

definition exServer :: Server where
  "exServer =
     \<lparr>RotationEnabled = True,
      AllowedToReuse = (\<lambda>lastUsed. 100 \<le> lastUsed + 30),
      CompletelyExpired = (\<lambda>createdAt. False),
      ExpiredBecauseUnused = (\<lambda>lastUsed. False),
      now = 100,
      NewID = ''T2'',
      oidcGroupsPrefix = True,
      getConnector = (\<lambda>c. if c = ''ldap'' then Some exConnector
                          else if c = ''plain'' then Some exPlainConnector else None),
      newAccessToken = (\<lambda>clientID claims scopes nonce connID. Some (Join (Groups claims) '','')),
      newIDToken = (\<lambda>clientID claims scopes nonce accessToken c connID.
                      Some (Join (Groups claims) '','', 200)),
      Unmarshal = (\<lambda>v. if v = ''R1.T1'' then Some \<lparr>RefreshId = ''R1'', Token = ''T1''\<rparr>
                        else None),
      Marshal = (\<lambda>t. Some (RefreshId t @ ''.'' @ Token t)),
      Quote = (\<lambda>x. [CHR 0x22] @ x @ [CHR 0x22])\<rparr>"

definition exHandle :: internal_RefreshToken where
  "exHandle = \<lparr>RefreshId = ''R1'', Token = ''T1''\<rparr>"

definition exStored :: storage_RefreshToken where
  "exStored =
     \<lparr>stID = ''R1'', stToken = ''T1'', stObsoleteToken = '''', stCreatedAt = 0,
      stLastUsed = 50, stClientID = ''C1'', stConnectorID = ''ldap'', stConnectorData = '''',
      stClaims = \<lparr>UserID = ''u1'', Username = ''alice'', PreferredUsername = ''alice'',
                  Email = ''alice@example.com'', EmailVerified = True, Groups = [''a'']\<rparr>,
      stScopes = [''openid'', ''email'', ''groups''], stNonce = ''n''\<rparr>"

text \<open>The record after a rotation at time 90 that another request won.\<close>

definition exRotated :: storage_RefreshToken where
  "exRotated = exStored\<lparr>stToken := ''T2'', stObsoleteToken := ''T1'', stLastUsed := 90\<rparr>"

text \<open>A record that still carries connector data of its own, on a connector without \<^verbatim>\<open>Refresh\<close>.\<close>

definition exLegacy :: storage_RefreshToken where
  "exLegacy = exStored\<lparr>stConnectorID := ''plain'', stConnectorData := ''legacy''\<rparr>"

definition exIdentity :: Identity where
  "exIdentity =
     \<lparr>idUserID = ''u1'', idUsername = ''alice'', idPreferredUsername = ''alice'',
      idEmail = ''alice@example.com'', idEmailVerified = True, idGroups = [''a'', ''b''],
      idConnectorData = ''cd''\<rparr>"

definition exSession :: OfflineSessions where
  "exSession = \<lparr>osRefresh = [''C1'' \<mapsto> \<lparr>refID = ''R1'', refLastUsed = 50\<rparr>],
                osConnectorData = ''cd''\<rparr>"

definition exStorage :: Storage where
  "exStorage =
     \<lparr>refreshTokens = (\<lambda>i. if i = ''R1'' then Inr exStored else Inl ErrNotFound),
      offlineSessions = (\<lambda>k. if k = (''u1'', ''ldap'') then Inr exSession
                              else Inl ErrNotFound)\<rparr>"

text \<open>The storage after that rotation: \<open>R1\<close> holds the rotated record.\<close>

definition exStorageRotated :: Storage where
  "exStorageRotated =
     exStorage\<lparr>refreshTokens := (refreshTokens exStorage)(''R1'' := Inr exRotated)\<rparr>"

text \<open>A storage whose backend is unreachable: every lookup fails with an error of its own.\<close>

definition exStorageDown :: Storage where
  "exStorageDown =
     \<lparr>refreshTokens = (\<lambda>i. Inl (Error ''connection refused'')),
      offlineSessions = (\<lambda>k. Inl (Error ''connection refused''))\<rparr>"

definition exRequest :: Request where
  "exRequest = \<lparr>PostForm = [''refresh_token'' \<mapsto> ''R1.T1'']\<rparr>"

definition exClient :: Client where
  "exClient = \<lparr>clID = ''C1''\<rparr>"

text \<open>
  A storage in memory that holds the legacy record, its groups \<open>[a]\<close> in the array at
  address 1, and no offline session; and a server whose ID-token minter fails.
\<close>

definition exMemStorage :: MemStorage where
  "exMemStorage =
     \<lparr>memRefreshTokens = (\<lambda>i. if i = ''R1'' then Inr (exLegacy, 1) else Inl ErrNotFound),
      memOfflineSessions = (\<lambda>k. Inl ErrNotFound),
      arrays = (\<lambda>a. if a = 1 then [''a''] else [])\<rparr>"

definition exServerNoIDToken :: Server where
  "exServerNoIDToken =
     exServer\<lparr>newIDToken := (\<lambda>clientID claims scopes nonce accessToken c connID. None)\<rparr>"

lemmas memory_defs = readStorage_def groupsArray_def returnsSeeded_def prefixInPlace_def
  handleRefreshTokenInMemory_def exMemStorage_def exServerNoIDToken_def

lemmas scenario_defs = exConnector_def exPlainConnector_def exServer_def exHandle_def
  exStored_def exRotated_def exLegacy_def exIdentity_def exSession_def exStorage_def
  exStorageRotated_def exStorageDown_def exRequest_def
  exClient_def

lemmas handler_defs = handleRefreshToken_def extractRefreshTokenFromRequest_def
  getRefreshTokenFromStorage_def getRefreshScopes_def refreshWithConnector_def
  updateRefreshToken_def updateOfflineSession_def refreshTokenUpdater_def
  offlineSessionUpdater_def UpdateRefreshToken_def UpdateOfflineSessions_def
  GetRefresh_def GetOfflineSessions_def PostFormValue_def prefixGroups_def
  injectGroupsPrefix_def identityClaims_def unauthorizedScopes_def SprintfQ_def
  refreshTokenErrHelper_def newInternalServerError_def newBadRequestError_def
  errInvalidRequest_def errInvalidGrant_def errServerError_def StatusBadRequest_def
  StatusInternalServerError_def invalidDesc_def

lemmas fields_defs = Fields_def spaceWidth_def unicodeSpace_def flush_def

section \<open>Properties\<close>

subsection \<open>Scope reconciliation\<close>

lemma contains_iff: "contains arr item \<longleftrightarrow> item \<in> set arr"
  by (induction arr) auto

lemma foldl_unauthorized:
  "foldl (\<lambda>acc x. if \<not> contains stored x then acc @ [x] else acc) acc xs
     = acc @ filter (\<lambda>x. x \<notin> set stored) xs"
  by (induction xs arbitrary: acc) (auto simp: contains_iff)

lemma unauthorizedScopes_filter:
  "unauthorizedScopes stored requested = filter (\<lambda>x. x \<notin> set stored) requested"
  by (simp add: unauthorizedScopes_def foldl_unauthorized)

text \<open>
  Claim C8. For every request: when the \<open>scope\<close> form field is the empty string (absent
  or empty), the reconciled scopes are exactly the stored scopes. Otherwise the field is
  split on white space; when every requested scope is a member of the stored scopes (exact
  string equality) the result is the requested list as presented, duplicates included;
  when some are not, the result is \<open>invalid_request\<close> with status 400 whose description
  lists, in order, exactly the requested scopes that are not stored.
\<close>

theorem getRefreshScopes_reconciles:
  "getRefreshScopes s r refresh =
     (if PostFormValue r ''scope'' = '''' then Inr (stScopes refresh)
      else if set (Fields (PostFormValue r ''scope'')) \<subseteq> set (stScopes refresh)
      then Inr (Fields (PostFormValue r ''scope''))
      else Inl \<lparr>msg = ''invalid_request'', code = 400,
                desc = ''Requested scopes contain unauthorized scope(s): ''
                  @ SprintfQ s (filter (\<lambda>x. x \<notin> set (stScopes refresh))
                                   (Fields (PostFormValue r ''scope''))) @ ''.''\<rparr>)"
  by (auto simp: getRefreshScopes_def Let_def unauthorizedScopes_filter newBadRequestError_def
      errInvalidRequest_def StatusBadRequest_def filter_empty_conv)

text \<open>
  The three branches at the stored scopes \<open>[openid, email, groups]\<close>: no \<open>scope\<close> field;
  a field with a duplicate and a double space; and the spec's scenario S5, where
  \<open>profile\<close> is the one offender.
\<close>

theorem getRefreshScopes_reconciles_witness:
  "getRefreshScopes exServer \<lparr>PostForm = Map.empty\<rparr> exStored
     = Inr [''openid'', ''email'', ''groups'']
   \<and> getRefreshScopes exServer \<lparr>PostForm = [''scope'' \<mapsto> ''email  openid email'']\<rparr> exStored
     = Inr [''email'', ''openid'', ''email'']
   \<and> getRefreshScopes exServer \<lparr>PostForm = [''scope'' \<mapsto> ''openid profile'']\<rparr> exStored
     = Inl \<lparr>msg = ''invalid_request'', code = 400,
            desc = ''Requested scopes contain unauthorized scope(s): ''
                     @ [CHR ''['', CHR 0x22] @ ''profile'' @ [CHR 0x22, CHR '']''] @ ''.''\<rparr>"
  using getRefreshScopes_reconciles [of exServer "\<lparr>PostForm = Map.empty\<rparr>" exStored]
    getRefreshScopes_reconciles
      [of exServer "\<lparr>PostForm = [''scope'' \<mapsto> ''email  openid email'']\<rparr>" exStored]
    getRefreshScopes_reconciles
      [of exServer "\<lparr>PostForm = [''scope'' \<mapsto> ''openid profile'']\<rparr>" exStored]
  by (simp add: PostFormValue_def fields_defs SprintfQ_def exServer_def exStored_def)

text \<open>White space at the head of a string is skipped by the scan.\<close>

lemma spaceWidth_enc:
  assumes "enc \<in> set unicodeSpace"
  shows "spaceWidth (enc @ rest) = length enc"
proof -
  have "\<forall>e \<in> set unicodeSpace. spaceWidth (e @ rest) = length e"
    unfolding unicodeSpace_def spaceWidth_def by simp
  then show ?thesis using assms by blast
qed

lemma fieldsFrom_skip:
  "fieldsFrom (length xs) cur (xs @ rest) = fieldsFrom 0 cur rest"
  by (induction xs) auto

lemma enc_nonempty: "enc \<in> set unicodeSpace \<Longrightarrow> enc \<noteq> []"
  by (auto simp: unicodeSpace_def)

lemma fieldsFrom_enc:
  assumes "enc \<in> set unicodeSpace"
  shows "fieldsFrom 0 [] (enc @ rest) = fieldsFrom 0 [] rest"
proof -
  obtain c cs where enc: "enc = c # cs"
    using enc_nonempty [OF assms] by (cases enc) auto
  have "spaceWidth (c # cs @ rest) = Suc (length cs)"
    using spaceWidth_enc [OF assms, of rest] enc by simp
  then show ?thesis
    using enc by (simp add: flush_def fieldsFrom_skip)
qed

lemma Fields_spaces:
  "set ws \<subseteq> set unicodeSpace \<Longrightarrow> Fields (concat ws) = []"
  unfolding Fields_def
  by (induction ws) (simp_all add: fieldsFrom_enc flush_def)

text \<open>
  Claim C10. For every request whose \<open>scope\<close> form field is not empty and consists of
  white-space characters only (it is a concatenation \<open>concat ws\<close> of one or more
  white-space characters), scope reconciliation returns the empty scope list, not the
  stored scopes.
\<close>

theorem getRefreshScopes_whitespace_only:
  assumes "PostFormValue r ''scope'' = concat ws" and "ws \<noteq> []"
    and "set ws \<subseteq> set unicodeSpace"
  shows "PostFormValue r ''scope'' \<noteq> '''' \<and> getRefreshScopes s r refresh = Inr []"
proof -
  have "concat ws \<noteq> []"
    using assms(2,3) enc_nonempty by (cases ws) auto
  moreover have "Fields (concat ws) = []"
    using assms(3) by (rule Fields_spaces)
  ultimately show ?thesis
    using assms(1) by (auto simp: getRefreshScopes_def Let_def unauthorizedScopes_def)
qed

text \<open>A field of a space, a tab and a no-break space, against three stored scopes.\<close>

theorem getRefreshScopes_whitespace_only_witness:
  "PostFormValue \<lparr>PostForm = [''scope'' \<mapsto> [CHR 0x20, CHR 0x09, CHR 0xC2, CHR 0xA0]]\<rparr>
       ''scope'' \<noteq> ''''
   \<and> getRefreshScopes exServer
        \<lparr>PostForm = [''scope'' \<mapsto> [CHR 0x20, CHR 0x09, CHR 0xC2, CHR 0xA0]]\<rparr> exStored = Inr []
   \<and> stScopes exStored \<noteq> []"
  using getRefreshScopes_whitespace_only
    [of "\<lparr>PostForm = [''scope'' \<mapsto> [CHR 0x20, CHR 0x09, CHR 0xC2, CHR 0xA0]]\<rparr>"
        "[[CHR 0x20], [CHR 0x09], [CHR 0xC2, CHR 0xA0]]" exServer exStored]
  by (simp add: PostFormValue_def unicodeSpace_def exStored_def)

subsection \<open>The validator's secret check\<close>



subsection \<open>The rotator\<close>

text \<open>
  Claim C6. For every non-error result of the rotator's refresh-token updater, the
  record's \<open>id\<close>, \<open>client_id\<close>, \<open>connector_id\<close>, \<open>created_at\<close> and \<open>claims.user_id\<close>
  are those of the latest persisted value the updater was given.
\<close>

theorem refreshTokenUpdater_binding_immutable:
  assumes "refreshTokenUpdater s token ident old c = (Inr new, c')"
  shows "stID new = stID old \<and> stClientID new = stClientID old
       \<and> stConnectorID new = stConnectorID old \<and> stCreatedAt new = stCreatedAt old
       \<and> UserID (stClaims new) = UserID (stClaims old)"
  using assms
  by (auto simp: refreshTokenUpdater_def Let_def split: prod.splits if_splits)

text \<open>
  Scenario S1 with a connector that reports another user id \<open>u2\<close>: the rotation succeeds
  and the stored subject stays \<open>u1\<close>.
\<close>

theorem refreshTokenUpdater_binding_immutable_witness:
  "refreshTokenUpdater exServer exHandle (exIdentity\<lparr>idUserID := ''u2''\<rparr>) exStored (\<lparr>RefreshId = ''R1'', Token = ''T2''\<rparr>, 100)
     = (Inr (exStored\<lparr>stToken := ''T2'', stObsoleteToken := ''T1'', stLastUsed := 100,
          stClaims := (stClaims exStored)\<lparr>Groups := [''a'', ''b'']\<rparr>\<rparr>), (\<lparr>RefreshId = ''R1'', Token = ''T2''\<rparr>, 100))
   \<and> stID (exStored\<lparr>stToken := ''T2'', stObsoleteToken := ''T1'', stLastUsed := 100,
          stClaims := (stClaims exStored)\<lparr>Groups := [''a'', ''b'']\<rparr>\<rparr>) = ''R1''
   \<and> UserID (stClaims (exStored\<lparr>stToken := ''T2'', stObsoleteToken := ''T1'', stLastUsed := 100,
          stClaims := (stClaims exStored)\<lparr>Groups := [''a'', ''b'']\<rparr>\<rparr>)) = ''u1''"
proof -
  have run: "refreshTokenUpdater exServer exHandle (exIdentity\<lparr>idUserID := ''u2''\<rparr>) exStored (\<lparr>RefreshId = ''R1'', Token = ''T2''\<rparr>, 100)
     = (Inr (exStored\<lparr>stToken := ''T2'', stObsoleteToken := ''T1'', stLastUsed := 100,
          stClaims := (stClaims exStored)\<lparr>Groups := [''a'', ''b'']\<rparr>\<rparr>), (\<lparr>RefreshId = ''R1'', Token = ''T2''\<rparr>, 100))"
    by (simp add: refreshTokenUpdater_def Let_def scenario_defs)
  show ?thesis
    using refreshTokenUpdater_binding_immutable [OF run] run
    by (simp add: scenario_defs)
qed

lemma updateOfflineSession_refreshTokens:
  "refreshTokens (snd (updateOfflineSession s st refresh ident lastUsed)) = refreshTokens st"
  by (simp add: updateOfflineSession_def UpdateOfflineSessions_def
      split: sum.splits outcome.splits option.splits)

text \<open>
  Claim C2. With rotation enabled, when the latest stored token differs from the presented
  secret, the reuse window is open for the stored \<open>last_used\<close> and the stored
  \<open>obsolete_token\<close> equals the presented secret: the updater sets the secret of the
  returned handle to the current stored token, returns the stored record unmodified, and
  sets \<open>lastUsed\<close> to the record's own \<open>last_used\<close>. So \<open>updateRefreshToken\<close>, on a
  storage whose offline session refers to this token, returns the handle with the already
  rotated secret, leaves the stored refresh token as it was, and writes the record's prior
  \<open>last_used\<close> (not the current time) into the offline session.
\<close>

theorem updateRefreshToken_reuse_retry:
  assumes "RotationEnabled s"
    and "stToken old \<noteq> Token token"
    and "AllowedToReuse s (stLastUsed old)"
    and "stObsoleteToken old = Token token"
  shows "refreshTokenUpdater s token ident old (newToken, lastUsed)
           = (Inr old, (newToken\<lparr>Token := stToken old\<rparr>, stLastUsed old))
       \<and> (\<forall>st refresh sess ref.
             refreshTokens st (stID refresh) = Inr old
             \<and> offlineSessions st (UserID (stClaims refresh), stConnectorID refresh) = Inr sess
             \<and> osRefresh sess (stClientID refresh) = Some ref
             \<and> refID ref = stID refresh
           \<longrightarrow> updateRefreshToken s st token refresh ident
               = (Return (Inr \<lparr>RefreshId = stID refresh, Token = stToken old\<rparr>),
                  st\<lparr>offlineSessions := (offlineSessions st)
                       ((UserID (stClaims refresh), stConnectorID refresh) :=
                          Inr (sess\<lparr>osRefresh := (osRefresh sess)
                                       (stClientID refresh \<mapsto> ref\<lparr>refLastUsed := stLastUsed old\<rparr>),
                                    osConnectorData := idConnectorData ident\<rparr>))\<rparr>))"
proof -
  have upd: "\<And>nt lu. refreshTokenUpdater s token ident old (nt, lu)
           = (Inr old, (nt\<lparr>Token := stToken old\<rparr>, stLastUsed old))"
    using assms by (simp add: refreshTokenUpdater_def Let_def)
  show ?thesis
  proof (intro conjI allI impI)
    show "refreshTokenUpdater s token ident old (newToken, lastUsed)
           = (Inr old, (newToken\<lparr>Token := stToken old\<rparr>, stLastUsed old))"
      by (rule upd)
  next
    fix st :: Storage and refresh :: storage_RefreshToken
      and sess :: OfflineSessions and ref :: RefreshTokenRef
    assume h: "refreshTokens st (stID refresh) = Inr old
             \<and> offlineSessions st (UserID (stClaims refresh), stConnectorID refresh) = Inr sess
             \<and> osRefresh sess (stClientID refresh) = Some ref
             \<and> refID ref = stID refresh"
    then have same: "(refreshTokens st)(stID refresh := Inr old) = refreshTokens st"
      by (simp add: fun_upd_idem)
    show "updateRefreshToken s st token refresh ident
               = (Return (Inr \<lparr>RefreshId = stID refresh, Token = stToken old\<rparr>),
                  st\<lparr>offlineSessions := (offlineSessions st)
                       ((UserID (stClaims refresh), stConnectorID refresh) :=
                          Inr (sess\<lparr>osRefresh := (osRefresh sess)
                                       (stClientID refresh \<mapsto> ref\<lparr>refLastUsed := stLastUsed old\<rparr>),
                                    osConnectorData := idConnectorData ident\<rparr>))\<rparr>)"
      using h assms(1) same
      by (simp add: updateRefreshToken_def UpdateRefreshToken_def upd Let_def
          updateOfflineSession_def UpdateOfflineSessions_def offlineSessionUpdater_def)
  qed
qed

text \<open>
  Scenario S3: after a rotation at time 90 to \<open>T2\<close>, a retry with \<open>T1\<close> at time 100
  gets \<open>T2\<close> back; the session's reference is stamped 90.
\<close>

theorem updateRefreshToken_reuse_retry_witness:
  "updateRefreshToken exServer exStorageRotated exHandle exStored exIdentity
     = (Return (Inr \<lparr>RefreshId = ''R1'', Token = ''T2''\<rparr>),
        exStorageRotated\<lparr>offlineSessions := (offlineSessions exStorageRotated)
           ((''u1'', ''ldap'') := Inr (exSession\<lparr>osRefresh := [''C1'' \<mapsto> \<lparr>refID = ''R1'', refLastUsed = 90\<rparr>]\<rparr>))\<rparr>)
   \<and> refreshTokens exStorageRotated ''R1'' = Inr exRotated \<and> stLastUsed exRotated = 90
   \<and> now exServer = 100"
  using updateRefreshToken_reuse_retry [of exServer exRotated exHandle exIdentity "\<lparr>RefreshId = ''R1'', Token = ''T2''\<rparr>" 100,
      THEN conjunct2, rule_format, of exStorageRotated exStored exSession "\<lparr>refID = ''R1'', refLastUsed = 50\<rparr>"]
  by (simp add: scenario_defs)

text \<open>
  Claim C9. With rotation disabled the updater compares nothing: for every stored record
  it sets the stored token to the presented secret and advances claims, \<open>last_used\<close> and
  connector data; and whenever \<open>updateRefreshToken\<close> returns a handle, it is the
  presented handle and the stored token is then the presented secret.
\<close>

theorem updateRefreshToken_rotation_disabled:
  assumes "\<not> RotationEnabled s"
  shows "refreshTokenUpdater s token ident old (token, lastUsed)
           = (Inr (old\<lparr>stToken := Token token,
                       stClaims := (stClaims old)
                         \<lparr>Username := idUsername ident,
                          PreferredUsername := idPreferredUsername ident,
                          Email := idEmail ident,
                          EmailVerified := idEmailVerified ident,
                          Groups := idGroups ident\<rparr>,
                       stLastUsed := lastUsed,
                       stConnectorData := []\<rparr>),
              (token, lastUsed))
       \<and> (\<forall>st refresh newToken st'.
             updateRefreshToken s st token refresh ident = (Return (Inr newToken), st')
           \<longrightarrow> newToken = token
               \<and> (\<exists>old new. refreshTokens st (stID refresh) = Inr old
                     \<and> refreshTokens st' (stID refresh) = Inr new
                     \<and> stToken new = Token token))"
proof -
  have upd: "\<And>old lu. refreshTokenUpdater s token ident old (token, lu)
           = (Inr (old\<lparr>stToken := Token token,
                       stClaims := (stClaims old)
                         \<lparr>Username := idUsername ident,
                          PreferredUsername := idPreferredUsername ident,
                          Email := idEmail ident,
                          EmailVerified := idEmailVerified ident,
                          Groups := idGroups ident\<rparr>,
                       stLastUsed := lu,
                       stConnectorData := []\<rparr>),
              (token, lu))"
    using assms by (simp add: refreshTokenUpdater_def Let_def)
  show ?thesis
  proof (intro conjI allI impI)
    fix st :: Storage and refresh :: storage_RefreshToken
      and newToken :: internal_RefreshToken and st' :: Storage
    assume run: "updateRefreshToken s st token refresh ident = (Return (Inr newToken), st')"
    show "newToken = token"
      using run assms
      by (auto simp: updateRefreshToken_def UpdateRefreshToken_def upd Let_def
          split: sum.splits prod.splits outcome.splits option.splits)
    show "\<exists>old new. refreshTokens st (stID refresh) = Inr old
                     \<and> refreshTokens st' (stID refresh) = Inr new
                     \<and> stToken new = Token token"
    proof (cases "refreshTokens st (stID refresh)")
      case (Inl e)
      then show ?thesis
        using run by (simp add: updateRefreshToken_def UpdateRefreshToken_def Let_def)
    next
      case (Inr old)
      let ?st1 = "st\<lparr>refreshTokens := (refreshTokens st)(stID refresh :=
          Inr (old\<lparr>stToken := Token token,
                       stClaims := (stClaims old)
                         \<lparr>Username := idUsername ident,
                          PreferredUsername := idPreferredUsername ident,
                          Email := idEmail ident,
                          EmailVerified := idEmailVerified ident,
                          Groups := idGroups ident\<rparr>,
                       stLastUsed := now s,
                       stConnectorData := []\<rparr>))\<rparr>"
      have "st' = snd (updateOfflineSession s ?st1 refresh ident (now s))"
        using run assms Inr
        by (auto simp: updateRefreshToken_def UpdateRefreshToken_def upd Let_def
            split: prod.splits outcome.splits option.splits)
      then have "refreshTokens st' = refreshTokens ?st1"
        by (simp add: updateOfflineSession_refreshTokens)
      then show ?thesis using Inr by simp
    qed
  qed (rule upd)
qed

text \<open>
  The record was rotated to \<open>T2\<close> before rotation was switched off; a request that
  presents the obsolete \<open>T1\<close> gets its own handle back and the stored token becomes
  \<open>T1\<close> again.
\<close>

theorem updateRefreshToken_rotation_disabled_witness:
  "fst (updateRefreshToken (exServer\<lparr>RotationEnabled := False\<rparr>) exStorageRotated exHandle exStored exIdentity)
     = Return (Inr exHandle)
   \<and> map_sum id stToken (refreshTokens exStorageRotated ''R1'') = Inr ''T2''
   \<and> map_sum id stToken (refreshTokens (snd (updateRefreshToken (exServer\<lparr>RotationEnabled := False\<rparr>)
        exStorageRotated exHandle exStored exIdentity)) ''R1'') = Inr ''T1''"
proof -
  obtain out st' where run: "updateRefreshToken (exServer\<lparr>RotationEnabled := False\<rparr>) exStorageRotated exHandle exStored exIdentity = (out, st')"
    by (cases "updateRefreshToken (exServer\<lparr>RotationEnabled := False\<rparr>) exStorageRotated exHandle exStored exIdentity")
  have out: "out = Return (Inr exHandle)"
    using run by (simp add: handler_defs scenario_defs Let_def)
  have "\<not> RotationEnabled (exServer\<lparr>RotationEnabled := False\<rparr>)" by simp
  from updateRefreshToken_rotation_disabled [OF this, of exHandle exIdentity exStored 0,
      THEN conjunct2, rule_format, OF run [unfolded out]]
  show ?thesis using run out
    by (auto simp: scenario_defs)
qed

subsection \<open>The orchestrator\<close>

text \<open>
  On a storage whose lookups hand out copies, records that share no array with the
  records it keeps: for every request that fails at a stage before the rotator (token
  extraction, validation, scope reconciliation, identity refresh, access-token minting or
  ID-token minting) the handler writes exactly one response, the OAuth2 error response of
  the stage that failed, and returns the storage it was given; no later stage
  contributes to the outcome.
\<close>

theorem handleRefreshToken_failure_before_rotator:
  "(\<forall>rerr. extractRefreshTokenFromRequest s r = Inl rerr
       \<longrightarrow> handleRefreshToken s st r client
           = (Return [TokenError (msg rerr) (desc rerr) (code rerr)], st))
   \<and> (\<forall>token. extractRefreshTokenFromRequest s r = Inr token \<longrightarrow>
        (\<forall>rerr. getRefreshTokenFromStorage s st (clID client) token = Inl rerr
           \<longrightarrow> handleRefreshToken s st r client
               = (Return [TokenError (msg rerr) (desc rerr) (code rerr)], st))
      \<and> (\<forall>refresh. getRefreshTokenFromStorage s st (clID client) token = Inr refresh \<longrightarrow>
           (\<forall>rerr. getRefreshScopes s r refresh = Inl rerr
              \<longrightarrow> handleRefreshToken s st r client
                  = (Return [TokenError (msg rerr) (desc rerr) (code rerr)], st))
         \<and> (\<forall>scopes. getRefreshScopes s r refresh = Inr scopes \<longrightarrow>
              (\<forall>rerr. refreshWithConnector s st token refresh scopes = Inl rerr
                 \<longrightarrow> handleRefreshToken s st r client
                     = (Return [TokenError (msg rerr) (desc rerr) (code rerr)], st))
            \<and> (\<forall>ident. refreshWithConnector s st token refresh scopes = Inr ident \<longrightarrow>
                 (newAccessToken s (clID client)
                      (identityClaims (injectGroupsPrefix s refresh ident)) scopes
                      (stNonce refresh) (stConnectorID refresh) = None
                    \<longrightarrow> handleRefreshToken s st r client
                        = (Return [TokenError (msg newInternalServerError) '''' 500], st))
               \<and> (\<forall>accessToken.
                     newAccessToken s (clID client)
                        (identityClaims (injectGroupsPrefix s refresh ident)) scopes
                        (stNonce refresh) (stConnectorID refresh) = Some accessToken
                     \<and> newIDToken s (clID client)
                          (identityClaims (injectGroupsPrefix s refresh ident)) scopes
                          (stNonce refresh) accessToken '''' (stConnectorID refresh) = None
                    \<longrightarrow> handleRefreshToken s st r client
                        = (Return [TokenError (msg newInternalServerError) '''' 500], st))))))"
  by (simp add: handleRefreshToken_def Let_def refreshTokenErrHelper_def
      newInternalServerError_def StatusInternalServerError_def)

text \<open>
  A request without \<open>refresh_token\<close> fails at extraction; with an ID-token minter that
  fails, scenario S6 ends in one error response and the storage as it was.
\<close>

theorem handleRefreshToken_failure_before_rotator_witness:
  "handleRefreshToken exServer exStorage \<lparr>PostForm = Map.empty\<rparr> exClient
     = (Return [TokenError ''invalid_request'' ''No refresh token is found in request.'' 400],
        exStorage)
   \<and> handleRefreshToken
        (exServer\<lparr>newIDToken := (\<lambda>clientID claims scopes nonce accessToken c connID. None)\<rparr>)
        exStorage exRequest exClient
     = (Return [TokenError ''invalid_request'' '''' 500], exStorage)"
  using handleRefreshToken_failure_before_rotator
      [where s = exServer and r = "\<lparr>PostForm = Map.empty\<rparr>" and st = exStorage
         and client = exClient]
    handleRefreshToken_failure_before_rotator
      [where s = "exServer\<lparr>newIDToken :=
                    (\<lambda>clientID claims scopes nonce accessToken c connID. None)\<rparr>"
         and r = exRequest and st = exStorage and client = exClient]
  by (simp add: handler_defs scenario_defs Let_def)

subsection \<open>Failure before the rotator, on a storage in memory\<close>

text \<open>
  An identity that \<open>refreshWithConnector\<close> built itself carries the groups of the loaded
  record, and a record the validator accepts is the one the lookup returned.
\<close>

lemma refreshWithConnector_returnsSeeded:
  assumes "refreshWithConnector s st token refresh scopes = Inr ident"
    and "returnsSeeded s token refresh"
  shows "idGroups ident = Groups (stClaims refresh)"
  using assms
  by (auto simp: refreshWithConnector_def returnsSeeded_def Let_def
      split: sum.splits option.splits if_splits)

lemma getRefreshTokenFromStorage_loaded:
  assumes "getRefreshTokenFromStorage s st clientID token = Inr refresh"
  shows "refreshTokens st (RefreshId token) = Inr refresh"
  using assms
  by (auto simp: getRefreshTokenFromStorage_def GetRefresh_def Let_def
      split: sum.splits if_splits)

text \<open>
  Claim C7, on the code with a storage that keeps its records in memory. The groups prefix
  is enabled, the stages up to the identity refresh succeed, the identity is the one
  seeded from the loaded record, and the access-token minter or the ID-token minter fails.
  Exactly one response is written, the error with status 500, and the rotator is not
  reached, as the claim says; but the stored refresh token is not as it was: its groups
  have become the prefixed groups, where the claim says it is not mutated.
\<close>

theorem handleRefreshTokenInMemory_mint_failure_mutates:
  assumes "oidcGroupsPrefix s"
    and "extractRefreshTokenFromRequest s r = Inr token"
    and "getRefreshTokenFromStorage s (readStorage m) (clID client) token = Inr refresh"
    and "getRefreshScopes s r refresh = Inr scopes"
    and "refreshWithConnector s (readStorage m) token refresh scopes = Inr ident"
    and "returnsSeeded s token refresh"
    and "newAccessToken s (clID client) (identityClaims (injectGroupsPrefix s refresh ident))
             scopes (stNonce refresh) (stConnectorID refresh) = None
         \<or> (\<exists>accessToken.
               newAccessToken s (clID client) (identityClaims (injectGroupsPrefix s refresh ident))
                 scopes (stNonce refresh) (stConnectorID refresh) = Some accessToken
               \<and> newIDToken s (clID client) (identityClaims (injectGroupsPrefix s refresh ident))
                   scopes (stNonce refresh) accessToken '''' (stConnectorID refresh) = None)"
  shows "refreshTokens (readStorage m) (RefreshId token) = Inr refresh
       \<and> (\<exists>m'. handleRefreshTokenInMemory s m r client
                   = Inl ([TokenError (msg newInternalServerError) '''' 500], m')
               \<and> refreshTokens (readStorage m') (RefreshId token)
                   = Inr (refresh\<lparr>stClaims := (stClaims refresh)
                            \<lparr>Groups := map (\<lambda>group. stConnectorID refresh @ '':'' @ group)
                                         (Groups (stClaims refresh))\<rparr>\<rparr>))"
proof -
  have loaded: "refreshTokens (readStorage m) (RefreshId token) = Inr refresh"
    using assms(3) by (rule getRefreshTokenFromStorage_loaded)
  then obtain rec a where stored: "memRefreshTokens m (RefreshId token) = Inr (rec, a)"
    and refresh: "refresh = rec\<lparr>stClaims := (stClaims rec)\<lparr>Groups := arrays m a\<rparr>\<rparr>"
    by (auto simp: readStorage_def split: sum.splits prod.splits)
  let ?m' = "m\<lparr>arrays := (arrays m)(a := prefixGroups (stConnectorID refresh) (arrays m a))\<rparr>"
  have loc: "groupsArray m (RefreshId token) = Some a"
    using stored by (simp add: groupsArray_def)
  have run: "handleRefreshTokenInMemory s m r client
               = Inl ([TokenError (msg newInternalServerError) '''' 500], ?m')"
    using assms(1,2,3,4,5,6,7) loc
    by (auto simp: handleRefreshTokenInMemory_def Let_def prefixInPlace_def
        refreshTokenErrHelper_def newInternalServerError_def StatusInternalServerError_def)
  have after: "refreshTokens (readStorage ?m') (RefreshId token)
                 = Inr (refresh\<lparr>stClaims := (stClaims refresh)
                          \<lparr>Groups := map (\<lambda>group. stConnectorID refresh @ '':'' @ group)
                                       (Groups (stClaims refresh))\<rparr>\<rparr>)"
    using stored refresh by (simp add: readStorage_def prefixGroups_def)
  show ?thesis
    using loaded run after by blast
qed

text \<open>
  The legacy record on the connector \<open>plain\<close>, which has no \<^verbatim>\<open>Refresh\<close>, with the
  ID-token minter failing: one error response, and the stored groups \<open>[a]\<close> have become
  \<open>[plain:a]\<close>.
\<close>

theorem handleRefreshTokenInMemory_mint_failure_mutates_witness:
  "map_sum id (Groups \<circ> stClaims) (refreshTokens (readStorage exMemStorage) ''R1'')
     = Inr [''a'']
   \<and> (\<exists>m'. handleRefreshTokenInMemory exServerNoIDToken exMemStorage exRequest exClient
               = Inl ([TokenError ''invalid_request'' '''' 500], m')
           \<and> map_sum id (Groups \<circ> stClaims) (refreshTokens (readStorage m') ''R1'')
               = Inr [''plain:a''])"
proof -
  let ?refresh = "exLegacy\<lparr>stClaims := (stClaims exLegacy)\<lparr>Groups := [''a'']\<rparr>\<rparr>"
  have "oidcGroupsPrefix exServerNoIDToken"
    and "extractRefreshTokenFromRequest exServerNoIDToken exRequest = Inr exHandle"
    and "getRefreshTokenFromStorage exServerNoIDToken (readStorage exMemStorage)
           (clID exClient) exHandle = Inr ?refresh"
    and "getRefreshScopes exServerNoIDToken exRequest ?refresh
           = Inr [''openid'', ''email'', ''groups'']"
    and "refreshWithConnector exServerNoIDToken (readStorage exMemStorage) exHandle ?refresh
           [''openid'', ''email'', ''groups''] = Inr (seededIdentity ?refresh '''')"
    and "returnsSeeded exServerNoIDToken exHandle ?refresh"
    by (simp_all add: handler_defs scenario_defs memory_defs seededIdentity_def Let_def)
  from handleRefreshTokenInMemory_mint_failure_mutates [OF this]
  show ?thesis
    by (auto simp: handler_defs scenario_defs memory_defs seededIdentity_def Let_def)
qed

text \<open>The groups an advancing updater stores are the groups of the identity it is given.\<close>

lemma refreshTokenUpdater_advance_groups:
  assumes "stToken old = Token token"
    and "refreshTokenUpdater s token ident old c = (res, c')"
  shows "\<exists>new. res = Inr new \<and> Groups (stClaims new) = idGroups ident"
  using assms
  by (auto simp: refreshTokenUpdater_def Let_def split: prod.splits if_splits)

lemma updateRefreshToken_stored_groups:
  assumes "refreshTokens st (stID refresh) = Inr old"
    and "stToken old = Token token"
    and "updateRefreshToken s st token refresh ident = (Return (Inr newToken), st')"
  shows "\<exists>new. refreshTokens st' (stID refresh) = Inr new
           \<and> Groups (stClaims new) = idGroups ident"
proof -
  let ?c = "(if RotationEnabled s then \<lparr>RefreshId = stID refresh, Token = NewID s\<rparr> else token,
             now s)"
  obtain res c' where upd: "refreshTokenUpdater s token ident old ?c = (res, c')"
    by (cases "refreshTokenUpdater s token ident old ?c")
  from refreshTokenUpdater_advance_groups [OF assms(2) upd]
  obtain new where new: "res = Inr new" "Groups (stClaims new) = idGroups ident"
    by blast
  let ?st1 = "st\<lparr>refreshTokens := (refreshTokens st)(stID refresh := Inr new)\<rparr>"
  have "st' = snd (updateOfflineSession s ?st1 refresh ident (snd c'))"
    using assms(1,3) upd new(1)
    by (auto simp: updateRefreshToken_def UpdateRefreshToken_def Let_def
        split: prod.splits outcome.splits option.splits)
  then have "refreshTokens st' = refreshTokens ?st1"
    by (simp add: updateOfflineSession_refreshTokens)
  then show ?thesis using new(2) by simp
qed

text \<open>
  Claim C1, on the code. For every successful refresh with the groups prefix enabled, in
  which the stored record still holds the presented secret: the claims handed to the
  access-token minter and to the ID-token minter carry every group of the connector's
  identity prefixed with \<open><connector_id>:\<close>, as the claim says; and the groups the
  rotator persists into the stored refresh token are these same prefixed groups, where
  the claim says they remain the unprefixed groups returned by the connector.
\<close>

theorem handleRefreshToken_persists_minted_groups:
  assumes "oidcGroupsPrefix s"
    and "extractRefreshTokenFromRequest s r = Inr token"
    and "getRefreshTokenFromStorage s st (clID client) token = Inr refresh"
    and "getRefreshScopes s r refresh = Inr scopes"
    and "refreshWithConnector s st token refresh scopes = Inr ident"
    and "refreshTokens st (stID refresh) = Inr old"
    and "stToken old = Token token"
    and "handleRefreshToken s st r client
           = (Return [AccessToken idToken accessToken rawNewToken expiry], st')"
  shows "newAccessToken s (clID client)
           \<lparr>UserID = idUserID ident, Username = idUsername ident,
            PreferredUsername = idPreferredUsername ident, Email = idEmail ident,
            EmailVerified = idEmailVerified ident,
            Groups = map (\<lambda>group. stConnectorID refresh @ '':'' @ group) (idGroups ident)\<rparr>
           scopes (stNonce refresh) (stConnectorID refresh) = Some accessToken
       \<and> newIDToken s (clID client)
           \<lparr>UserID = idUserID ident, Username = idUsername ident,
            PreferredUsername = idPreferredUsername ident, Email = idEmail ident,
            EmailVerified = idEmailVerified ident,
            Groups = map (\<lambda>group. stConnectorID refresh @ '':'' @ group) (idGroups ident)\<rparr>
           scopes (stNonce refresh) accessToken '''' (stConnectorID refresh)
           = Some (idToken, expiry)
       \<and> (\<exists>new. refreshTokens st' (stID refresh) = Inr new
             \<and> Groups (stClaims new)
                 = map (\<lambda>group. stConnectorID refresh @ '':'' @ group) (idGroups ident))"
proof -
  let ?ident = "injectGroupsPrefix s refresh ident"
  have groups: "idGroups ?ident
                  = map (\<lambda>group. stConnectorID refresh @ '':'' @ group) (idGroups ident)"
    using assms(1) by (simp add: injectGroupsPrefix_def prefixGroups_def)
  have claims: "identityClaims ?ident =
           \<lparr>UserID = idUserID ident, Username = idUsername ident,
            PreferredUsername = idPreferredUsername ident, Email = idEmail ident,
            EmailVerified = idEmailVerified ident,
            Groups = map (\<lambda>group. stConnectorID refresh @ '':'' @ group) (idGroups ident)\<rparr>"
    using assms(1) by (simp add: identityClaims_def injectGroupsPrefix_def prefixGroups_def)
  from assms(8) have mint: "newAccessToken s (clID client) (identityClaims ?ident) scopes
           (stNonce refresh) (stConnectorID refresh) = Some accessToken"
    and mintID: "newIDToken s (clID client) (identityClaims ?ident) scopes
           (stNonce refresh) accessToken '''' (stConnectorID refresh) = Some (idToken, expiry)"
    and rot: "\<exists>newToken. updateRefreshToken s st token refresh ?ident
                  = (Return (Inr newToken), st')"
    using assms(2-5)
    by (auto simp: handleRefreshToken_def Let_def refreshTokenErrHelper_def
        split: option.splits prod.splits outcome.splits sum.splits)
  from rot obtain newToken where
    "updateRefreshToken s st token refresh ?ident = (Return (Inr newToken), st')" ..
  from updateRefreshToken_stored_groups [OF assms(6,7) this] groups mint mintID claims
  show ?thesis by simp
qed

text \<open>
  The spec's scenario S6 (connector \<open>ldap\<close>, the connector returns the groups \<open>[a, b]\<close>):
  the tokens are minted from \<open>[ldap:a, ldap:b]\<close> and the stored groups become
  \<open>[ldap:a, ldap:b]\<close>.
\<close>

theorem handleRefreshToken_persists_minted_groups_witness:
  "fst (handleRefreshToken exServer exStorage exRequest exClient)
     = Return [AccessToken ''ldap:a,ldap:b'' ''ldap:a,ldap:b'' ''R1.T2'' 200]
   \<and> map_sum id (Groups \<circ> stClaims)
         (refreshTokens (snd (handleRefreshToken exServer exStorage exRequest exClient)) ''R1'')
       = Inr [''ldap:a'', ''ldap:b'']"
proof -
  obtain st' where run: "handleRefreshToken exServer exStorage exRequest exClient
      = (Return [AccessToken ''ldap:a,ldap:b'' ''ldap:a,ldap:b'' ''R1.T2'' 200], st')"
    by (simp add: handler_defs scenario_defs Let_def)
  have "oidcGroupsPrefix exServer"
    and "extractRefreshTokenFromRequest exServer exRequest = Inr exHandle"
    and "getRefreshTokenFromStorage exServer exStorage (clID exClient) exHandle = Inr exStored"
    and "getRefreshScopes exServer exRequest exStored = Inr [''openid'', ''email'', ''groups'']"
    and "refreshWithConnector exServer exStorage exHandle exStored
           [''openid'', ''email'', ''groups''] = Inr exIdentity"
    and "refreshTokens exStorage (stID exStored) = Inr exStored"
    and "stToken exStored = Token exHandle"
    by (simp_all add: handler_defs scenario_defs Let_def)
  from handleRefreshToken_persists_minted_groups [OF this run]
  show ?thesis using run by (auto simp: scenario_defs)
qed

text \<open>
  What follows from the stored prefix: a retry of the same request inside the reuse window
  takes the reuse short-circuit, seeds the identity from the stored groups and prefixes
  them again.
\<close>

lemma handleRefreshToken_retry_prefixes_twice:
  "fst (handleRefreshToken exServer
          (snd (handleRefreshToken exServer exStorage exRequest exClient)) exRequest exClient)
     = Return [AccessToken ''ldap:ldap:a,ldap:ldap:b'' ''ldap:ldap:a,ldap:ldap:b'' ''R1.T2'' 200]"
  by (simp add: handler_defs scenario_defs Let_def)

subsection \<open>The validator's error mapping\<close>

text \<open>
  Claim C5, on the code where the lookup of the refresh token fails with an error other
  than "not found". The validator answers with status 500 under the error name
  \<open>invalid_request\<close>, the same name it gives "not found"; the claim says
  \<open>server_error\<close>.
\<close>

theorem getRefreshTokenFromStorage_storage_failure:
  assumes "GetRefresh st (RefreshId token) = Inl (Error m)"
  shows "getRefreshTokenFromStorage s st clientID token
           = Inl \<lparr>msg = ''invalid_request'', code = 500, desc = ''''\<rparr>
       \<and> msg newInternalServerError = msg (newBadRequestError (invalidDesc clientID token))
       \<and> msg newInternalServerError \<noteq> errServerError"
  using assms
  by (simp add: getRefreshTokenFromStorage_def Let_def newInternalServerError_def
      newBadRequestError_def errInvalidRequest_def errServerError_def
      StatusInternalServerError_def)

text \<open>A storage whose backend refuses the connection, asked for \<open>R1\<close> by client \<open>C1\<close>.\<close>

theorem getRefreshTokenFromStorage_storage_failure_witness:
  "GetRefresh exStorageDown (RefreshId exHandle) = Inl (Error ''connection refused'')
   \<and> getRefreshTokenFromStorage exServer exStorageDown ''C1'' exHandle
       = Inl \<lparr>msg = ''invalid_request'', code = 500, desc = ''''\<rparr>"
  using getRefreshTokenFromStorage_storage_failure
      [of exStorageDown exHandle "''connection refused''" exServer "''C1''"]
  by (simp add: GetRefresh_def scenario_defs)

text \<open>
  The validator's checks in their order: load, client binding, secret match, absolute
  expiry, idle expiry, each with the error it yields.
\<close>

lemma getRefreshTokenFromStorage_checks:
  "getRefreshTokenFromStorage s st clientID token =
     (case GetRefresh st (RefreshId token) of
        Inl ErrNotFound \<Rightarrow>
          Inl \<lparr>msg = ''invalid_request'', code = 400, desc = invalidDesc clientID token\<rparr>
      | Inl (Error m) \<Rightarrow> Inl \<lparr>msg = errInvalidRequest, code = 500, desc = ''''\<rparr>
      | Inr refresh \<Rightarrow>
          if stClientID refresh \<noteq> clientID
          then Inl \<lparr>msg = ''invalid_grant'', code = 400, desc = invalidDesc clientID token\<rparr>
          else if stToken refresh \<noteq> Token token
                  \<and> \<not> (AllowedToReuse s (stLastUsed refresh)
                         \<and> stObsoleteToken refresh = Token token
                         \<and> stObsoleteToken refresh \<noteq> '''')
          then Inl \<lparr>msg = ''invalid_request'', code = 400, desc = invalidDesc clientID token\<rparr>
          else if CompletelyExpired s (stCreatedAt refresh)
          then Inl \<lparr>msg = ''invalid_request'', code = 400, desc = ''Refresh token expired.''\<rparr>
          else if ExpiredBecauseUnused s (stLastUsed refresh)
          then Inl \<lparr>msg = ''invalid_request'', code = 400, desc = ''Refresh token expired.''\<rparr>
          else Inr refresh)"
  by (auto simp: getRefreshTokenFromStorage_def Let_def newBadRequestError_def
      newInternalServerError_def errInvalidRequest_def errInvalidGrant_def StatusBadRequest_def
      StatusInternalServerError_def split: sum.splits error.splits)

subsection \<open>The identity refresher's connector data\<close>

text \<open>
  Claim C4 as stated fails: the stored refresh token has the connector data \<open>legacy\<close>,
  not empty; its offline session is not found; the identity seeded from the stored claims
  carries empty connector data, not the record's.
\<close>

theorem refreshWithConnector_legacy_data_dropped:
  "stConnectorData exLegacy = ''legacy''
   \<and> GetOfflineSessions exStorage (UserID (stClaims exLegacy)) (stConnectorID exLegacy)
       = Inl ErrNotFound
   \<and> refreshWithConnector exServer exStorage exHandle exLegacy [''openid'']
       = Inr \<lparr>idUserID = ''u1'', idUsername = ''alice'', idPreferredUsername = ''alice'',
              idEmail = ''alice@example.com'', idEmailVerified = True, idGroups = [''a''],
              idConnectorData = ''''\<rparr>"
  by (simp add: handler_defs scenario_defs Let_def)

text \<open>
  Claim C4, amended. Any session-load error other than "not found" fails the refresh with
  status 500. Otherwise the identity is seeded from the stored claims with this connector
  data: when the offline session loads, the stored refresh token's own connector data if
  it is not empty and the session's if it is; when the session is not found, empty
  connector data, whatever the record holds. That seeded identity is returned as it is
  on the reuse short-circuit and for a connector without \<^verbatim>\<open>Refresh\<close>, and is what
  \<^verbatim>\<open>Refresh\<close> is called with otherwise.
\<close>

theorem refreshWithConnector_connector_data:
  "(\<forall>m. GetOfflineSessions st (UserID (stClaims refresh)) (stConnectorID refresh) = Inl (Error m)
       \<longrightarrow> (\<exists>rerr. refreshWithConnector s st token refresh scopes = Inl rerr \<and> code rerr = 500))
   \<and> (\<forall>conn cd.
         getConnector s (stConnectorID refresh) = Some conn
         \<and> ((\<exists>session. GetOfflineSessions st (UserID (stClaims refresh)) (stConnectorID refresh)
                          = Inr session
                  \<and> cd = (if stConnectorData refresh \<noteq> [] then stConnectorData refresh
                          else osConnectorData session))
            \<or> (GetOfflineSessions st (UserID (stClaims refresh)) (stConnectorID refresh)
                  = Inl ErrNotFound \<and> cd = []))
       \<longrightarrow> (if (AllowedToReuse s (stLastUsed refresh) \<and> Token token = stObsoleteToken refresh)
               \<or> RefreshConnector conn = None
            then refreshWithConnector s st token refresh scopes = Inr (seededIdentity refresh cd)
            else (case the (RefreshConnector conn) scopes (seededIdentity refresh cd) of
                    None \<Rightarrow> (\<exists>rerr. refreshWithConnector s st token refresh scopes = Inl rerr
                                    \<and> code rerr = 500)
                  | Some newIdent \<Rightarrow>
                      refreshWithConnector s st token refresh scopes = Inr newIdent)))"
  by (auto simp: refreshWithConnector_def seededIdentity_def Let_def newInternalServerError_def
      StatusInternalServerError_def split: option.splits)

text \<open>
  The four cases: a storage that is down; a legacy record whose session loads (record-level
  data wins over the session's \<open>cd\<close>); the same record without a session (empty data);
  and scenario S6, where the session's data is used and the connector refreshes.
\<close>

theorem refreshWithConnector_connector_data_witness:
  "map_sum code id (refreshWithConnector exServer exStorageDown exHandle exStored [''openid''])
     = Inl 500
   \<and> refreshWithConnector exServer
        (exStorage\<lparr>offlineSessions := (\<lambda>k. Inr exSession)\<rparr>) exHandle exLegacy [''openid'']
       = Inr (seededIdentity exLegacy ''legacy'')
   \<and> refreshWithConnector exServer exStorage exHandle exLegacy [''openid'']
       = Inr (seededIdentity exLegacy '''')
   \<and> refreshWithConnector exServer exStorage exHandle exStored [''openid'']
       = Inr ((seededIdentity exStored ''cd'')\<lparr>idGroups := [''a'', ''b'']\<rparr>)"
  using refreshWithConnector_connector_data
      [of exStorageDown exStored exServer exHandle "[''openid'']"]
    refreshWithConnector_connector_data
      [of "exStorage\<lparr>offlineSessions := (\<lambda>k. Inr exSession)\<rparr>" exLegacy exServer exHandle
          "[''openid'']"]
    refreshWithConnector_connector_data
      [of exStorage exLegacy exServer exHandle "[''openid'']"]
    refreshWithConnector_connector_data
      [of exStorage exStored exServer exHandle "[''openid'']"]
  by (simp add: handler_defs scenario_defs seededIdentity_def Let_def)

end
